theory Spec2Isabelle
  imports Main
begin

section \<open>JavaScript values\<close>

text \<open>
  The evaluated specification \<^verbatim>\<open>fields.spec.value\<close> is an arbitrary JavaScript value
  handed over by the hosting framework.  Numbers are restricted to integers (the numbers
  of \<^verbatim>\<open>defaultSpec\<close> are), so \<^verbatim>\<open>NaN\<close> and fractions are outside the model.
  An object is the list of its own properties in insertion order, their names distinct
  (none of them an array index, which JavaScript would order first).
\<close>

datatype js_value =
    JUndefined
  | JNull
  | JBool bool
  | JNum int
  | JStr string
  | JArr "js_value list"
  | JObj "(string \<times> js_value) list"

datatype js_error = TypeError | LoadError

text \<open>JavaScript's \<^verbatim>\<open>ToBoolean\<close>, which decides \<^verbatim>\<open>!spec\<close> and
  \<^verbatim>\<open>!fields.spec.value\<close>.\<close>

fun truthy :: "js_value \<Rightarrow> bool" where
  "truthy JUndefined = False"
| "truthy JNull = False"
| "truthy (JBool b) = b"
| "truthy (JNum n) = (n \<noteq> 0)"
| "truthy (JStr s) = (s \<noteq> [])"
| "truthy (JArr xs) = True"
| "truthy (JObj kvs) = True"

text \<open>The property read \<^verbatim>\<open>v.rowData\<close>: a \<^verbatim>\<open>TypeError\<close> on \<^verbatim>\<open>undefined\<close> and
  \<^verbatim>\<open>null\<close>, the property's value on an object that has it, and \<^verbatim>\<open>undefined\<close>
  everywhere else (booleans, numbers, strings and arrays have no such property).\<close>

fun rowData :: "js_value \<Rightarrow> js_error + js_value" where
  "rowData JUndefined = Inl TypeError"
| "rowData JNull = Inl TypeError"
| "rowData (JObj kvs) = Inr (case map_of kvs ''rowData'' of None \<Rightarrow> JUndefined | Some v \<Rightarrow> v)"
| "rowData v = Inr JUndefined"

section \<open>JSON text\<close>

text \<open>
  The built-in \<^verbatim>\<open>JSON.stringify(value, null, space)\<close>, after ECMAScript's
  \<^verbatim>\<open>SerializeJSONProperty\<close>, \<^verbatim>\<open>SerializeJSONObject\<close> and \<^verbatim>\<open>SerializeJSONArray\<close>:
  \<open>gap\<close> is the indentation unit, \<open>indent\<close> the current indentation.  A property
  whose value is \<^verbatim>\<open>undefined\<close> is left out of an object and written \<^verbatim>\<open>null\<close> in an
  array; the result of serialising \<^verbatim>\<open>undefined\<close> itself is \<^verbatim>\<open>undefined\<close>.
\<close>

definition digit_char :: "nat \<Rightarrow> char" where
  "digit_char d = ''0123456789abcdef'' ! d"

fun show_nat :: "nat \<Rightarrow> string" where
  "show_nat n = (if n < 10 then [digit_char n] else show_nat (n div 10) @ [digit_char (n mod 10)])"

definition show_int :: "int \<Rightarrow> string" where
  "show_int i = (if i < 0 then CHR ''-'' # show_nat (nat (- i)) else show_nat (nat i))"

fun quote_char :: "char \<Rightarrow> string" where
  "quote_char c =
     (if c = CHR 0x22 then [CHR 0x5C, CHR 0x22]
      else if c = CHR 0x5C then [CHR 0x5C, CHR 0x5C]
      else if c = CHR 0x08 then [CHR 0x5C, CHR ''b'']
      else if c = CHR 0x0C then [CHR 0x5C, CHR ''f'']
      else if c = CHR 0x0A then [CHR 0x5C, CHR ''n'']
      else if c = CHR 0x0D then [CHR 0x5C, CHR ''r'']
      else if c = CHR 0x09 then [CHR 0x5C, CHR ''t'']
      else if (of_char c :: nat) < 0x20
        then [CHR 0x5C, CHR ''u'', CHR ''0'', CHR ''0'',
              digit_char (of_char c div 16), digit_char (of_char c mod 16)]
      else [c])"

definition QuoteJSONString :: "string \<Rightarrow> string" where
  "QuoteJSONString s = CHR 0x22 # concat (map quote_char s) @ [CHR 0x22]"

fun join :: "string \<Rightarrow> string list \<Rightarrow> string" where
  "join sep [] = []"
| "join sep [x] = x"
| "join sep (x # y # ys) = x @ sep @ join sep (y # ys)"

fun SerializeJSONProperty :: "string \<Rightarrow> string \<Rightarrow> js_value \<Rightarrow> string option"
  and SerializeJSONElements :: "string \<Rightarrow> string \<Rightarrow> js_value list \<Rightarrow> string list"
  and SerializeJSONMembers :: "string \<Rightarrow> string \<Rightarrow> (string \<times> js_value) list \<Rightarrow> string list"
where
  "SerializeJSONProperty gap indent JUndefined = None"
| "SerializeJSONProperty gap indent JNull = Some ''null''"
| "SerializeJSONProperty gap indent (JBool b) = Some (if b then ''true'' else ''false'')"
| "SerializeJSONProperty gap indent (JNum n) = Some (show_int n)"
| "SerializeJSONProperty gap indent (JStr s) = Some (QuoteJSONString s)"
| "SerializeJSONProperty gap indent (JArr xs) =
     (let partial = SerializeJSONElements gap (indent @ gap) xs in
      Some (if partial = [] then ''[]''
            else if gap = [] then ''['' @ join '','' partial @ '']''
            else ''['' @ [CHR 0x0A] @ indent @ gap
                 @ join ('','' @ [CHR 0x0A] @ indent @ gap) partial
                 @ [CHR 0x0A] @ indent @ '']''))"
| "SerializeJSONProperty gap indent (JObj kvs) =
     (let partial = SerializeJSONMembers gap (indent @ gap) kvs in
      Some (if partial = [] then ''{}''
            else if gap = [] then ''{'' @ join '','' partial @ ''}''
            else ''{'' @ [CHR 0x0A] @ indent @ gap
                 @ join ('','' @ [CHR 0x0A] @ indent @ gap) partial
                 @ [CHR 0x0A] @ indent @ ''}''))"
| "SerializeJSONElements gap indent [] = []"
| "SerializeJSONElements gap indent (x # xs) =
     (case SerializeJSONProperty gap indent x of None \<Rightarrow> ''null'' | Some str \<Rightarrow> str)
       # SerializeJSONElements gap indent xs"
| "SerializeJSONMembers gap indent [] = []"
| "SerializeJSONMembers gap indent ((k, v) # kvs) =
     (case SerializeJSONProperty gap indent v of
        None \<Rightarrow> SerializeJSONMembers gap indent kvs
      | Some str \<Rightarrow>
          (QuoteJSONString k @ '':'' @ (if gap = [] then [] else '' '') @ str)
            # SerializeJSONMembers gap indent kvs)"

definition JSON_stringify :: "js_value \<Rightarrow> nat \<Rightarrow> js_value" where
  "JSON_stringify v space =
     (case SerializeJSONProperty (replicate (min 10 space) CHR '' '') [] v of
        None \<Rightarrow> JUndefined
      | Some str \<Rightarrow> JStr str)"

text \<open>
  The built-in \<^verbatim>\<open>JSON.parse(text)\<close> as a recursive-descent parser of the JSON grammar;
  \<open>None\<close> stands for the \<^verbatim>\<open>SyntaxError\<close>.  Two restrictions follow from the value
  type: a number with a fraction or an exponent, and a unicode escape beyond
  code 127, are rejected.  The value, element and member parsers take fuel, one unit
  for each value, element and member they enter; \<^verbatim>\<open>JSON.parse\<close> supplies the length
  of the text, and running out of fuel is \<open>None\<close> as well.
\<close>

definition is_ws :: "char \<Rightarrow> bool" where
  "is_ws c = (c = CHR 0x20 \<or> c = CHR 0x09 \<or> c = CHR 0x0A \<or> c = CHR 0x0D)"

definition skip_ws :: "string \<Rightarrow> string" where
  "skip_ws s = dropWhile is_ws s"

definition is_digit :: "char \<Rightarrow> bool" where
  "is_digit c = (48 \<le> (of_char c :: nat) \<and> (of_char c :: nat) \<le> 57)"

definition digit_val :: "char \<Rightarrow> nat" where
  "digit_val c = of_char c - 48"

definition hex_val :: "char \<Rightarrow> nat option" where
  "hex_val c =
     (let n = (of_char c :: nat) in
      if 48 \<le> n \<and> n \<le> 57 then Some (n - 48)
      else if 97 \<le> n \<and> n \<le> 102 then Some (n - 87)
      else if 65 \<le> n \<and> n \<le> 70 then Some (n - 55)
      else None)"

definition unescape :: "char \<Rightarrow> char option" where
  "unescape e =
     (if e = CHR 0x22 then Some (CHR 0x22)
      else if e = CHR 0x5C then Some (CHR 0x5C)
      else if e = CHR ''/'' then Some (CHR ''/'')
      else if e = CHR ''b'' then Some (CHR 0x08)
      else if e = CHR ''f'' then Some (CHR 0x0C)
      else if e = CHR ''n'' then Some (CHR 0x0A)
      else if e = CHR ''r'' then Some (CHR 0x0D)
      else if e = CHR ''t'' then Some (CHR 0x09)
      else None)"

definition unicode_escape :: "char \<Rightarrow> char \<Rightarrow> char \<Rightarrow> char \<Rightarrow> char option" where
  "unicode_escape a b c d =
     (case (hex_val a, hex_val b, hex_val c, hex_val d) of
        (Some 0, Some 0, Some h, Some l) \<Rightarrow> if h < 8 then Some (char_of (16 * h + l)) else None
      | _ \<Rightarrow> None)"

definition cons_char :: "char \<Rightarrow> (string \<times> string) option \<Rightarrow> (string \<times> string) option" where
  "cons_char c r = (case r of None \<Rightarrow> None | Some (str, rest) \<Rightarrow> Some (c # str, rest))"

fun parse_string :: "string \<Rightarrow> (string \<times> string) option" where
  "parse_string [] = None"
| "parse_string (c # cs) =
     (if c = CHR 0x22 then Some ([], cs)
      else if c = CHR 0x5C then
        (case cs of
           [] \<Rightarrow> None
         | e # cs1 \<Rightarrow>
             if e = CHR ''u'' then
               (case cs1 of
                  h1 # h2 # h3 # h4 # cs2 \<Rightarrow>
                    (case unicode_escape h1 h2 h3 h4 of
                       None \<Rightarrow> None
                     | Some ch \<Rightarrow> cons_char ch (parse_string cs2))
                | _ \<Rightarrow> None)
             else
               (case unescape e of
                  None \<Rightarrow> None
                | Some ch \<Rightarrow> cons_char ch (parse_string cs1)))
      else if (of_char c :: nat) < 0x20 then None
      else cons_char c (parse_string cs))"

fun parse_digits :: "nat \<Rightarrow> string \<Rightarrow> nat \<times> string" where
  "parse_digits acc [] = (acc, [])"
| "parse_digits acc (c # cs) =
     (if is_digit c then parse_digits (10 * acc + digit_val c) cs else (acc, c # cs))"

definition parse_unsigned :: "string \<Rightarrow> (nat \<times> string) option" where
  "parse_unsigned s =
     (case s of
        [] \<Rightarrow> None
      | d # ds \<Rightarrow>
          if \<not> is_digit d then None
          else
            (let (n, rest) = (if d = CHR ''0'' then (0, ds) else parse_digits 0 s) in
             case rest of
               [] \<Rightarrow> Some (n, rest)
             | c # cs \<Rightarrow>
                 if c = CHR ''.'' \<or> c = CHR ''e'' \<or> c = CHR ''E'' then None
                 else Some (n, rest)))"

definition parse_number :: "string \<Rightarrow> (int \<times> string) option" where
  "parse_number s =
     (case s of
        [] \<Rightarrow> None
      | c # cs \<Rightarrow>
          if c = CHR ''-'' then
            (case parse_unsigned cs of None \<Rightarrow> None | Some (n, rest) \<Rightarrow> Some (- int n, rest))
          else
            (case parse_unsigned s of None \<Rightarrow> None | Some (n, rest) \<Rightarrow> Some (int n, rest)))"

fun strip_prefix :: "string \<Rightarrow> string \<Rightarrow> string option" where
  "strip_prefix [] s = Some s"
| "strip_prefix (p # ps) [] = None"
| "strip_prefix (p # ps) (c # cs) = (if p = c then strip_prefix ps cs else None)"

fun set_property :: "string \<Rightarrow> js_value \<Rightarrow> (string \<times> js_value) list \<Rightarrow> (string \<times> js_value) list" where
  "set_property k v [] = [(k, v)]"
| "set_property k v ((k', v') # kvs) =
     (if k = k' then (k, v) # kvs else (k', v') # set_property k v kvs)"

definition make_object :: "(string \<times> js_value) list \<Rightarrow> js_value" where
  "make_object kvs = JObj (foldl (\<lambda>obj (k, v). set_property k v obj) [] kvs)"

fun parse_value :: "nat \<Rightarrow> string \<Rightarrow> (js_value \<times> string) option"
  and parse_elements :: "nat \<Rightarrow> string \<Rightarrow> (js_value list \<times> string) option"
  and parse_members :: "nat \<Rightarrow> string \<Rightarrow> ((string \<times> js_value) list \<times> string) option"
where
  "parse_value 0 s = None"
| "parse_value (Suc n) s =
     (case s of
        [] \<Rightarrow> None
      | c # cs \<Rightarrow>
          if c = CHR ''{'' then
            (case skip_ws cs of
               [] \<Rightarrow> None
             | c1 # cs1 \<Rightarrow>
                 if c1 = CHR ''}'' then Some (JObj [], cs1)
                 else
                   (case parse_members n (c1 # cs1) of
                      None \<Rightarrow> None
                    | Some (kvs, rest) \<Rightarrow> Some (make_object kvs, rest)))
          else if c = CHR ''['' then
            (case skip_ws cs of
               [] \<Rightarrow> None
             | c1 # cs1 \<Rightarrow>
                 if c1 = CHR '']'' then Some (JArr [], cs1)
                 else
                   (case parse_elements n (c1 # cs1) of
                      None \<Rightarrow> None
                    | Some (vs, rest) \<Rightarrow> Some (JArr vs, rest)))
          else if c = CHR 0x22 then
            (case parse_string cs of
               None \<Rightarrow> None
             | Some (str, rest) \<Rightarrow> Some (JStr str, rest))
          else if c = CHR ''t'' then
            (case strip_prefix ''rue'' cs of None \<Rightarrow> None | Some rest \<Rightarrow> Some (JBool True, rest))
          else if c = CHR ''f'' then
            (case strip_prefix ''alse'' cs of None \<Rightarrow> None | Some rest \<Rightarrow> Some (JBool False, rest))
          else if c = CHR ''n'' then
            (case strip_prefix ''ull'' cs of None \<Rightarrow> None | Some rest \<Rightarrow> Some (JNull, rest))
          else
            (case parse_number s of None \<Rightarrow> None | Some (i, rest) \<Rightarrow> Some (JNum i, rest)))"
| "parse_elements 0 s = None"
| "parse_elements (Suc n) s =
     (case parse_value n s of
        None \<Rightarrow> None
      | Some (v, rest) \<Rightarrow>
          (case skip_ws rest of
             [] \<Rightarrow> None
           | c # cs \<Rightarrow>
               if c = CHR '','' then
                 (case parse_elements n (skip_ws cs) of
                    None \<Rightarrow> None
                  | Some (vs, rest') \<Rightarrow> Some (v # vs, rest'))
               else if c = CHR '']'' then Some ([v], cs)
               else None))"
| "parse_members 0 s = None"
| "parse_members (Suc n) s =
     (case s of
        [] \<Rightarrow> None
      | q # s1 \<Rightarrow>
          if q \<noteq> CHR 0x22 then None
          else
            (case parse_string s1 of
               None \<Rightarrow> None
             | Some (k, s2) \<Rightarrow>
                 (case skip_ws s2 of
                    [] \<Rightarrow> None
                  | c # s3 \<Rightarrow>
                      if c \<noteq> CHR '':'' then None
                      else
                        (case parse_value n (skip_ws s3) of
                           None \<Rightarrow> None
                         | Some (v, s4) \<Rightarrow>
                             (case skip_ws s4 of
                                [] \<Rightarrow> None
                              | d # s5 \<Rightarrow>
                                  if d = CHR '','' then
                                    (case parse_members n (skip_ws s5) of
                                       None \<Rightarrow> None
                                     | Some (kvs, rest) \<Rightarrow> Some ((k, v) # kvs, rest))
                                  else if d = CHR ''}'' then Some ([(k, v)], s5)
                                  else None)))))"

definition JSON_parse :: "string \<Rightarrow> js_value option" where
  "JSON_parse text =
     (case parse_value (length text) (skip_ws text) of
        None \<Rightarrow> None
      | Some (v, rest) \<Rightarrow> if skip_ws rest = [] then Some v else None)"

definition parse_json_value :: "js_value \<Rightarrow> js_value option" where
  "parse_json_value d = (case d of JStr text \<Rightarrow> JSON_parse text | _ \<Rightarrow> None)"

section \<open>The component's metadata\<close>

text \<open>Modelled from the spec: the enumeration \<^verbatim>\<open>FieldType\<close> of
  \<^verbatim>\<open>../streamsyncTypes\<close>, which is not among the sources; the spec calls it a small
  closed set of declared value types (object/JSON, text, color, boolean).\<close>

datatype FieldType = Object | Text | Color | Boolean

record field_spec =
  field_name :: string
  field_default :: js_value
  field_desc :: string
  field_type :: FieldType

record component_meta =
  meta_name :: string
  meta_description :: string
  meta_category :: string
  meta_fields :: "(string \<times> field_spec) list"

text \<open>The constant \<^verbatim>\<open>defaultSpec\<close> of the component's module.\<close>

definition defaultSpec :: js_value where
  "defaultSpec = JObj
     [(''columnDefs'', JArr
        [JObj [(''headerName'', JStr ''Make''), (''field'', JStr ''make'')],
         JObj [(''headerName'', JStr ''Model''), (''field'', JStr ''model'')],
         JObj [(''headerName'', JStr ''Price''), (''field'', JStr ''price'')]]),
      (''rowData'', JArr
        [JObj [(''make'', JStr ''Toyota''), (''model'', JStr ''Celica''), (''price'', JNum 35000)],
         JObj [(''make'', JStr ''Ford''), (''model'', JStr ''Mondeo''), (''price'', JNum 32000)],
         JObj [(''make'', JStr ''Porsche''), (''model'', JStr ''Boxster''), (''price'', JNum 7200)]])]"

text \<open>An array of \<open>n\<close> records (objects).\<close>

fun is_object :: "js_value \<Rightarrow> bool" where
  "is_object (JObj kvs) = True"
| "is_object v = False"

fun is_record_list :: "nat \<Rightarrow> js_value \<Rightarrow> bool" where
  "is_record_list n (JArr xs) = (length xs = n \<and> list_all is_object xs)"
| "is_record_list n v = False"

text \<open>A grid specification of the shape of \<^verbatim>\<open>defaultSpec\<close>: an object of a
  \<^verbatim>\<open>columnDefs\<close> list of three records and a \<^verbatim>\<open>rowData\<close> list of three records.\<close>

fun is_grid_spec :: "js_value \<Rightarrow> bool" where
  "is_grid_spec (JObj [(k1, cols), (k2, rows)]) =
     (k1 = ''columnDefs'' \<and> is_record_list 3 cols \<and> k2 = ''rowData'' \<and> is_record_list 3 rows)"
| "is_grid_spec v = False"

text \<open>A default value is valid under the declared type \<^verbatim>\<open>FieldType.Object\<close> when it is
  JSON text that parses to an object.\<close>

definition valid_object_default :: "js_value \<Rightarrow> bool" where
  "valid_object_default d = (case parse_json_value d of Some (JObj kvs) \<Rightarrow> True | _ \<Rightarrow> False)"

text \<open>The exported \<^verbatim>\<open>streamsync\<close> record; \<^verbatim>\<open>fields\<close> is the object literal's list of
  properties.\<close>

definition streamsync :: component_meta where
  "streamsync =
     \<lparr>meta_name = ''Ag Grid'',
      meta_description = [],
      meta_category = ''Content'',
      meta_fields =
        [(''spec'',
          \<lparr>field_name = ''Grid specification'',
           field_default = JSON_stringify defaultSpec 2,
           field_desc = ''Ag Grid specification'',
           field_type = Object\<rparr>)]\<rparr>"

section \<open>The component's state\<close>

datatype html_element = HTMLElement nat

text \<open>
  The widget library is not part of the repository, so the class \<^verbatim>\<open>Grid\<close> that the
  module load delivers is a parameter of the state.  All the wrapper can observe of
  \<^verbatim>\<open>new Grid(el, options)\<close> is whether it throws or returns, and, when it returns, whether
  it left a callable \<^verbatim>\<open>api.setRowData\<close> on the options it was given.
\<close>

datatype construction = Throws | Returns bool

text \<open>A value that can carry the property \<^verbatim>\<open>api\<close>: an object or an array.  Reading
  \<^verbatim>\<open>.api\<close> of \<^verbatim>\<open>undefined\<close> or \<^verbatim>\<open>null\<close> throws, and a boolean, a number or a string
  has none.\<close>

fun holds_properties :: "js_value \<Rightarrow> bool" where
  "holds_properties (JObj kvs) = True"
| "holds_properties (JArr xs) = True"
| "holds_properties v = False"

text \<open>A \<^verbatim>\<open>Grid\<close> instance is known by the two arguments its constructor received;
  \<^verbatim>\<open>aggrid.gridOptions\<close> is the second.  \<open>api\<close> says whether
  \<^verbatim>\<open>aggrid.gridOptions.api.setRowData\<close> evaluates to a function.\<close>

record grid =
  eGridDiv :: "html_element option"
  gridOptions :: js_value
  api :: bool

text \<open>What the component does to the outside world, in the order it does it: the
  dynamic \<^verbatim>\<open>import('ag-grid-community')\<close>, \<^verbatim>\<open>new Grid(el, options)\<close> with what came
  of it, \<^verbatim>\<open>aggrid.gridOptions.api.setRowData(rows)\<close>, and the rejection of the promise of
  an invocation whose own code threw or whose module load failed.\<close>

datatype effect =
    ImportModule
  | NewGrid "html_element option" js_value construction
  | SetRowData grid js_value
  | Rejected js_error

text \<open>
  The variables the script reads and writes: \<^verbatim>\<open>import.meta.env.SSR\<close>, the
  \<^verbatim>\<open>streamsync\<close> record the module exports (as registered with the framework), the
  class \<^verbatim>\<open>Grid\<close> of the widget library, \<^verbatim>\<open>rootEl.value\<close>, \<^verbatim>\<open>fields.spec.value\<close> and
  \<^verbatim>\<open>aggrid\<close>; with them the number of \<^verbatim>\<open>renderGrid\<close> invocations that wait at
  \<^verbatim>\<open>await import(...)\<close>, and the effects so far.
\<close>

record component =
  ssr :: bool
  registered :: component_meta
  Grid :: "html_element option \<Rightarrow> js_value \<Rightarrow> construction"
  rootEl :: "html_element option"
  spec :: js_value
  aggrid :: "grid option"
  suspended :: nat
  effects :: "effect list"

section \<open>The component's operations\<close>

text \<open>\<^verbatim>\<open>renderGrid\<close> up to its \<^verbatim>\<open>await\<close>: the two guards, then the module load.\<close>

definition renderGrid :: "component \<Rightarrow> component" where
  "renderGrid s =
     (if ssr s then s
      else if \<not> truthy (spec s) \<or> rootEl s = None then s
      else s\<lparr>suspended := Suc (suspended s), effects := effects s @ [ImportModule]\<rparr>)"

text \<open>
  \<^verbatim>\<open>renderGrid\<close> after its \<^verbatim>\<open>await\<close>.  It reads \<^verbatim>\<open>aggrid\<close>, \<^verbatim>\<open>rootEl.value\<close> and
  \<^verbatim>\<open>fields.spec.value\<close> as they are when it continues.
  \<^item> With \<^verbatim>\<open>aggrid\<close> null it calls the constructor; \<^verbatim>\<open>aggrid\<close> is assigned only when the
    constructor returns, and a throw ends the invocation.
  \<^item> Otherwise JavaScript evaluates \<^verbatim>\<open>aggrid.gridOptions.api.setRowData\<close> first, a
    \<^verbatim>\<open>TypeError\<close> on an instance without the api; then the argument
    \<^verbatim>\<open>fields.spec.value.rowData\<close>, a \<^verbatim>\<open>TypeError\<close> on \<^verbatim>\<open>undefined\<close> and \<^verbatim>\<open>null\<close>;
    then it makes the call.  Nothing follows the call, so whether \<^verbatim>\<open>setRowData\<close> itself
    returns changes no variable of the script.
\<close>

definition renderGrid_resume :: "component \<Rightarrow> component" where
  "renderGrid_resume s =
     (case aggrid s of
        None \<Rightarrow>
          (case Grid s (rootEl s) (spec s) of
             Throws \<Rightarrow> s\<lparr>effects := effects s @ [NewGrid (rootEl s) (spec s) Throws]\<rparr>
           | Returns attached \<Rightarrow>
               s\<lparr>aggrid := Some \<lparr>eGridDiv = rootEl s, gridOptions = spec s,
                                 api = (holds_properties (spec s) \<and> attached)\<rparr>,
                 effects := effects s @ [NewGrid (rootEl s) (spec s) (Returns attached)]\<rparr>)
      | Some g \<Rightarrow>
          if \<not> api g then s\<lparr>effects := effects s @ [Rejected TypeError]\<rparr>
          else
            (case rowData (spec s) of
               Inl e \<Rightarrow> s\<lparr>effects := effects s @ [Rejected e]\<rparr>
             | Inr rows \<Rightarrow> s\<lparr>effects := effects s @ [SetRowData g rows]\<rparr>))"

text \<open>The callback of \<^verbatim>\<open>watch(() => fields.spec.value, ...)\<close>, called with the new value.\<close>

definition watch_callback :: "js_value \<Rightarrow> component \<Rightarrow> component" where
  "watch_callback v s = (if \<not> truthy v then s else renderGrid s)"

text \<open>The \<^verbatim>\<open>onMounted\<close> hook; what followed its guard is commented out in the source.\<close>

definition onMounted :: "component \<Rightarrow> component" where
  "onMounted s = (let s' = renderGrid s in if rootEl s' = None then s' else s')"

text \<open>
  The events of a component's life: the framework binds or clears the template ref
  \<^verbatim>\<open>rootEl\<close>, the component is mounted, the evaluated specification changes (the
  framework stores the value, then the watcher fires), a suspended \<^verbatim>\<open>renderGrid\<close>
  continues, or its module load fails and the invocation ends there.  All suspended
  invocations run the same code on the same variables, so their number is all that
  matters.
\<close>

datatype event =
    BindRoot "html_element option"
  | Mounted
  | SpecChanged js_value
  | Resume
  | LoadFailed

fun step :: "event \<Rightarrow> component \<Rightarrow> component" where
  "step (BindRoot el) s = s\<lparr>rootEl := el\<rparr>"
| "step Mounted s = onMounted s"
| "step (SpecChanged v) s = watch_callback v (s\<lparr>spec := v\<rparr>)"
| "step Resume s =
     (if suspended s = 0 then s else renderGrid_resume (s\<lparr>suspended := suspended s - 1\<rparr>))"
| "step LoadFailed s =
     (if suspended s = 0 then s
      else s\<lparr>suspended := suspended s - 1, effects := effects s @ [Rejected LoadError]\<rparr>)"

fun run :: "event list \<Rightarrow> component \<Rightarrow> component" where
  "run [] s = s"
| "run (e # es) s = run es (step e s)"

text \<open>The number of \<^verbatim>\<open>Grid\<close> instances constructed so far: the constructor calls that
  returned.\<close>

fun is_NewGrid :: "effect \<Rightarrow> bool" where
  "is_NewGrid (NewGrid el opts (Returns attached)) = True"
| "is_NewGrid e = False"

definition grids_created :: "component \<Rightarrow> nat" where
  "grids_created s = length (filter is_NewGrid (effects s))"

text \<open>The state once \<^verbatim>\<open>script setup\<close> has run: \<^verbatim>\<open>rootEl = ref(null)\<close>,
  \<^verbatim>\<open>aggrid = null\<close>, the injected specification, nothing suspended and no effect yet.\<close>

definition script_setup ::
  "bool \<Rightarrow> (html_element option \<Rightarrow> js_value \<Rightarrow> construction) \<Rightarrow> js_value \<Rightarrow> component" where
  "script_setup env_ssr lib v =
     \<lparr>ssr = env_ssr, registered = streamsync, Grid = lib, rootEl = None, spec = v,
      aggrid = None, suspended = 0, effects = []\<rparr>"


text \<open>
  What the wrapper determines of the displayed rows is the rows it handed over last: the
  \<^verbatim>\<open>rowData\<close> of the options of a construction that returned, then the argument of each
  \<^verbatim>\<open>setRowData\<close>.  \<open>None\<close>: no rows were handed over.
\<close>

definition rows_of :: "js_value \<Rightarrow> js_value option" where
  "rows_of v = (case rowData v of Inl e \<Rightarrow> None | Inr rows \<Rightarrow> Some rows)"

fun hand_over :: "js_value option \<Rightarrow> effect \<Rightarrow> js_value option" where
  "hand_over shown (NewGrid el opts (Returns attached)) = rows_of opts"
| "hand_over shown (SetRowData g rows) = Some rows"
| "hand_over shown e = shown"

definition displayed_rows :: "component \<Rightarrow> js_value option" where
  "displayed_rows s = foldl hand_over None (effects s)"





text \<open>A stand-in for the widget library in concrete runs: its constructor returns, and
  leaves the api on the options when it was given an element.\<close>

definition sample_Grid :: "html_element option \<Rightarrow> js_value \<Rightarrow> construction" where
  "sample_Grid el opts = Returns (el \<noteq> None)"

text \<open>A component in a browser, mounted on an element, its grid built from
  \<^verbatim>\<open>defaultSpec\<close>; and a second specification with other columns and rows.\<close>

definition mounted_grid :: component where
  "mounted_grid =
     run [BindRoot (Some (HTMLElement 0)), Mounted, Resume]
       (script_setup False sample_Grid defaultSpec)"

text \<open>The same component when the specification turned \<^verbatim>\<open>null\<close> while the module
  loaded: its grid was built from \<^verbatim>\<open>null\<close>.\<close>

definition null_built_grid :: component where
  "null_built_grid =
     run [BindRoot (Some (HTMLElement 0)), Mounted, SpecChanged JNull, Resume]
       (script_setup False sample_Grid defaultSpec)"

definition otherSpec :: js_value where
  "otherSpec = JObj
     [(''columnDefs'', JArr [JObj [(''headerName'', JStr ''City''), (''field'', JStr ''city'')]]),
      (''rowData'', JArr [JObj [(''city'', JStr ''Lyon'')], JObj [(''city'', JStr ''Nantes'')]])]"

section \<open>The documentation site's navigation manifest\<close>

text \<open>The JSON document of the documentation generator, value by value.\<close>

definition mint :: js_value where
  "mint = JObj
     [(''$schema'', JStr ''https://mintlify.com/schema.json''),
      (''name'', JStr ''Starter Kit''),
      (''logo'', JObj
         [(''dark'', JStr ''/logo/dark.svg''),
          (''light'', JStr ''/logo/writer_logo.svg'')]),
      (''favicon'', JStr ''/favicon.svg''),
      (''colors'', JObj
         [(''primary'', JStr ''#0D9373''),
          (''light'', JStr ''#07C983''),
          (''dark'', JStr ''#0D9373''),
          (''anchors'', JObj
             [(''from'', JStr ''#0D9373''),
              (''to'', JStr ''#07C983'')])]),
      (''tabs'', JArr
         [JObj
           [(''name'', JStr ''Framework''),
            (''url'', JStr ''docs/framework'')],
          JObj
           [(''name'', JStr ''Components''),
            (''url'', JStr ''docs/components'')]]),
      (''navigation'', JArr
         [JObj
           [(''group'', JStr ''Getting started''),
            (''pages'', JArr
               [JStr ''docs/framework/introduction'',
                JStr ''docs/framework/quickstart'',
                JStr ''docs/framework/ai-module''])],
          JObj
           [(''group'', JStr ''Guides''),
            (''pages'', JArr
               [JStr ''docs/framework/application-state'',
                JStr ''docs/framework/event-handlers'',
                JStr ''docs/framework/builder-basics'',
                JStr ''docs/framework/handling-inputs'',
                JStr ''docs/framework/backend-driven-ui'',
                JStr ''docs/framework/stylesheets'',
                JStr ''docs/framework/frontend-scripts'',
                JStr ''docs/framework/custom-components'',
                JStr ''docs/framework/authentication''])],
          JObj
           [(''group'', JStr ''Tutorials''),
            (''pages'', JArr
               [JStr ''docs/framework/chat-assistant'',
                JStr ''docs/framework/social-post-generator'',
                JStr ''docs/framework/product-description-generator''])],
          JObj
           [(''group'', JStr ''Deployment''),
            (''pages'', JArr
               [JStr ''docs/framework/deploy-with-docker'',
                JStr ''docs/framework/testing''])],
          JObj
           [(''group'', JStr ''Advanced''),
            (''pages'', JArr
               [JStr ''docs/framework/repeater'',
                JStr ''docs/framework/backend-initiated-actions'',
                JStr ''docs/framework/page-routes'',
                JStr ''docs/framework/sessions'',
                JStr ''docs/framework/custom-server'',
                JStr ''docs/framework/state-schema''])],
          JObj
           [(''group'', JStr ''Layout''),
            (''pages'', JArr
               [JStr ''docs/components/column'',
                JStr ''docs/components/columns'',
                JStr ''docs/components/header'',
                JStr ''docs/components/horizontalstack'',
                JStr ''docs/components/section'',
                JStr ''docs/components/separator'',
                JStr ''docs/components/sidebar'',
                JStr ''docs/components/step'',
                JStr ''docs/components/steps'',
                JStr ''docs/components/tab'',
                JStr ''docs/components/tabs''])],
          JObj
           [(''group'', JStr ''Content''),
            (''pages'', JArr
               [JStr ''docs/components/avatar'',
                JStr ''docs/components/chatbot'',
                JStr ''docs/components/dataframe'',
                JStr ''docs/components/heading'',
                JStr ''docs/components/icon'',
                JStr ''docs/components/image'',
                JStr ''docs/components/link'',
                JStr ''docs/components/message'',
                JStr ''docs/components/metric'',
                JStr ''docs/components/plotlygraph'',
                JStr ''docs/components/tags'',
                JStr ''docs/components/text'',
                JStr ''docs/components/vegalitechart'',
                JStr ''docs/components/videoplayer''])],
          JObj
           [(''group'', JStr ''Input''),
            (''pages'', JArr
               [JStr ''docs/components/checkboxinput'',
                JStr ''docs/components/dateinput'',
                JStr ''docs/components/dropdowninput'',
                JStr ''docs/components/fileinput'',
                JStr ''docs/components/multiselectinput'',
                JStr ''docs/components/numberinput'',
                JStr ''docs/components/radioinput'',
                JStr ''docs/components/ratinginput'',
                JStr ''docs/components/selectinput'',
                JStr ''docs/components/sliderinput'',
                JStr ''docs/components/switchinput'',
                JStr ''docs/components/textareainput'',
                JStr ''docs/components/textinput''])],
          JObj
           [(''group'', JStr ''Other''),
            (''pages'', JArr
               [JStr ''docs/components/button'',
                JStr ''docs/components/html'',
                JStr ''docs/components/pagination'',
                JStr ''docs/components/repeater'',
                JStr ''docs/components/reuse'',
                JStr ''docs/components/timer'',
                JStr ''docs/components/webcamcapture''])],
          JObj
           [(''group'', JStr ''Embed''),
            (''pages'', JArr
               [JStr ''docs/components/googlemaps'',
                JStr ''docs/components/mapbox'',
                JStr ''docs/components/pdf'',
                JStr ''docs/components/iframe''])]]),
      (''footerSocials'', JObj
         [(''x'', JStr ''https://x.com/mintlify''),
          (''github'', JStr ''https://github.com/mintlify''),
          (''linkedin'', JStr ''https://www.linkedin.com/company/mintsearch'')])]"

definition navigation :: "js_value list" where
  "navigation =
     (case mint of
        JObj kvs \<Rightarrow> (case map_of kvs ''navigation'' of Some (JArr entries) \<Rightarrow> entries | _ \<Rightarrow> [])
      | _ \<Rightarrow> [])"

fun is_page_id :: "js_value \<Rightarrow> bool" where
  "is_page_id (JStr page) = True"
| "is_page_id v = False"

text \<open>A navigation entry: an object of a \<^verbatim>\<open>group\<close> string and a \<^verbatim>\<open>pages\<close> array of
  strings.\<close>

fun is_nav_entry :: "js_value \<Rightarrow> bool" where
  "is_nav_entry (JObj [(k1, JStr label), (k2, JArr pages)]) =
     (k1 = ''group'' \<and> k2 = ''pages'' \<and> list_all is_page_id pages)"
| "is_nav_entry v = False"

section \<open>Auxiliary facts\<close>

lemma renderGrid_fields:
  "ssr (renderGrid s) = ssr s" "registered (renderGrid s) = registered s"
  "rootEl (renderGrid s) = rootEl s" "spec (renderGrid s) = spec s"
  "aggrid (renderGrid s) = aggrid s" "Grid (renderGrid s) = Grid s"
  by (simp_all add: renderGrid_def)

lemma renderGrid_resume_fields:
  "ssr (renderGrid_resume s) = ssr s" "registered (renderGrid_resume s) = registered s"
  "rootEl (renderGrid_resume s) = rootEl s" "spec (renderGrid_resume s) = spec s"
  "suspended (renderGrid_resume s) = suspended s" "Grid (renderGrid_resume s) = Grid s"
  by (simp_all add: renderGrid_resume_def split: option.splits sum.splits construction.splits)

















lemma registered_step: "registered (step e s) = registered s"
  by (cases e)
    (simp_all add: onMounted_def Let_def watch_callback_def renderGrid_fields renderGrid_resume_fields)

lemma registered_run: "registered (run es s) = registered s"
  by (induction es arbitrary: s) (simp_all add: registered_step)

lemma mounted_grid_eq:
  "mounted_grid =
     \<lparr>ssr = False, registered = streamsync, Grid = sample_Grid,
      rootEl = Some (HTMLElement 0), spec = defaultSpec,
      aggrid = Some \<lparr>eGridDiv = Some (HTMLElement 0), gridOptions = defaultSpec, api = True\<rparr>,
      suspended = 0,
      effects = [ImportModule, NewGrid (Some (HTMLElement 0)) defaultSpec (Returns True)]\<rparr>"
  by (simp add: mounted_grid_def script_setup_def onMounted_def Let_def renderGrid_def
      renderGrid_resume_def sample_Grid_def defaultSpec_def)

lemma null_built_grid_eq:
  "null_built_grid =
     \<lparr>ssr = False, registered = streamsync, Grid = sample_Grid,
      rootEl = Some (HTMLElement 0), spec = JNull,
      aggrid = Some \<lparr>eGridDiv = Some (HTMLElement 0), gridOptions = JNull, api = False\<rparr>,
      suspended = 0,
      effects = [ImportModule, NewGrid (Some (HTMLElement 0)) JNull (Returns True)]\<rparr>"
  by (simp add: null_built_grid_def script_setup_def onMounted_def Let_def renderGrid_def
      renderGrid_resume_def watch_callback_def sample_Grid_def defaultSpec_def)


text \<open>Evaluation of the parser and the serialiser on numerals.\<close>

lemma parse_value_numeral: "parse_value (numeral k) s = parse_value (Suc (pred_numeral k)) s"
  by (simp add: numeral_eq_Suc)

lemma parse_elements_numeral:
  "parse_elements (numeral k) s = parse_elements (Suc (pred_numeral k)) s"
  by (simp add: numeral_eq_Suc)

lemma parse_members_numeral:
  "parse_members (numeral k) s = parse_members (Suc (pred_numeral k)) s"
  by (simp add: numeral_eq_Suc)

lemma replicate_numeral: "replicate (numeral k) x = x # replicate (pred_numeral k) x"
  by (simp add: numeral_eq_Suc)

lemmas json_eval =
  JSON_parse_def parse_json_value_def JSON_stringify_def QuoteJSONString_def skip_ws_def
  is_ws_def is_digit_def digit_val_def parse_number_def parse_unsigned_def make_object_def
  cons_char_def show_int_def digit_char_def show_nat.simps
  parse_value_numeral parse_elements_numeral parse_members_numeral replicate_numeral

lemma defaultSpec_roundtrip: "parse_json_value (JSON_stringify defaultSpec 2) = Some defaultSpec"
  by (simp add: json_eval defaultSpec_def)

section \<open>Properties of the component and of the manifest\<close>

text \<open>
  C1.  An invocation of \<^verbatim>\<open>renderGrid\<close> that finds the evaluated specification falsy
  (undefined, null, ...) or the mount target absent returns with the state as it was: no
  \<^verbatim>\<open>Grid\<close> is constructed, \<^verbatim>\<open>aggrid\<close> keeps its value, no effect is added and no
  invocation is left waiting.
\<close>

theorem renderGrid_absent_noop:
  assumes "\<not> truthy (spec s) \<or> rootEl s = None"
  shows "renderGrid s = s \<and> aggrid (renderGrid s) = aggrid s
    \<and> grids_created (renderGrid s) = grids_created s
    \<and> effects (renderGrid s) = effects s \<and> suspended (renderGrid s) = suspended s"
proof -
  have "renderGrid s = s"
    using assms by (auto simp add: renderGrid_def)
  then show ?thesis by simp
qed

theorem renderGrid_absent_noop_witness:
  "\<not> truthy (spec (mounted_grid\<lparr>spec := JUndefined\<rparr>))
   \<and> renderGrid (mounted_grid\<lparr>spec := JUndefined\<rparr>) = mounted_grid\<lparr>spec := JUndefined\<rparr>
   \<and> rootEl (script_setup False sample_Grid defaultSpec) = None
   \<and> renderGrid (script_setup False sample_Grid defaultSpec) = script_setup False sample_Grid defaultSpec"
proof -
  have h1: "\<not> truthy (spec (mounted_grid\<lparr>spec := JUndefined\<rparr>))
      \<or> rootEl (mounted_grid\<lparr>spec := JUndefined\<rparr>) = None"
    by simp
  have h2: "\<not> truthy (spec (script_setup False sample_Grid defaultSpec))
      \<or> rootEl (script_setup False sample_Grid defaultSpec) = None"
    by (simp add: script_setup_def)
  show ?thesis
    using renderGrid_absent_noop [OF h1] renderGrid_absent_noop [OF h2]
    by (simp add: script_setup_def)
qed

text \<open>
  C10.  In a server-side rendering environment \<^verbatim>\<open>renderGrid\<close> returns at once, whatever
  the rest of the state: no module load is attempted (no effect is added, nothing is left
  waiting), no widget is instantiated and the state is unchanged.
\<close>

theorem renderGrid_ssr_noop:
  assumes "ssr s"
  shows "renderGrid s = s \<and> effects (renderGrid s) = effects s
    \<and> suspended (renderGrid s) = suspended s \<and> aggrid (renderGrid s) = aggrid s"
  using assms by (simp add: renderGrid_def)

theorem renderGrid_ssr_noop_witness:
  "ssr (mounted_grid\<lparr>ssr := True\<rparr>) \<and> truthy (spec (mounted_grid\<lparr>ssr := True\<rparr>))
   \<and> rootEl (mounted_grid\<lparr>ssr := True\<rparr>) = Some (HTMLElement 0)
   \<and> renderGrid (mounted_grid\<lparr>ssr := True\<rparr>) = mounted_grid\<lparr>ssr := True\<rparr>"
proof -
  have h: "ssr (mounted_grid\<lparr>ssr := True\<rparr>)" by simp
  show ?thesis
    using renderGrid_ssr_noop [OF h] by (simp add: mounted_grid_eq defaultSpec_def)
qed

text \<open>
  C9.  When the evaluated specification changes to a falsy value (undefined, null, the
  empty string, zero, false) the watch callback returns without calling
  \<^verbatim>\<open>renderGrid\<close>: apart from the new specification value the state is as before, so
  the widget and the rows it displays are left as they were, not cleared.
\<close>

theorem falsy_change_keeps_widget:
  assumes "\<not> truthy v"
  shows "watch_callback v s = s
    \<and> step (SpecChanged v) s = s\<lparr>spec := v\<rparr>
    \<and> aggrid (step (SpecChanged v) s) = aggrid s
    \<and> effects (step (SpecChanged v) s) = effects s
    \<and> suspended (step (SpecChanged v) s) = suspended s
    \<and> displayed_rows (step (SpecChanged v) s) = displayed_rows s"
  using assms by (simp add: watch_callback_def displayed_rows_def)

theorem falsy_change_keeps_widget_witness:
  "\<not> truthy JNull
   \<and> step (SpecChanged JNull) mounted_grid = mounted_grid\<lparr>spec := JNull\<rparr>
   \<and> aggrid (step (SpecChanged JNull) mounted_grid)
       = Some \<lparr>eGridDiv = Some (HTMLElement 0), gridOptions = defaultSpec, api = True\<rparr>
   \<and> displayed_rows (step (SpecChanged JNull) mounted_grid) = rows_of defaultSpec
   \<and> \<not> truthy (JStr [])
   \<and> step (SpecChanged (JStr [])) mounted_grid = mounted_grid\<lparr>spec := JStr []\<rparr>"
proof -
  have h: "\<not> truthy JNull" and h': "\<not> truthy (JStr [])" by simp_all
  have a: "aggrid mounted_grid = Some \<lparr>eGridDiv = Some (HTMLElement 0), gridOptions = defaultSpec, api = True\<rparr>"
    by (simp add: mounted_grid_eq)
  have d: "displayed_rows mounted_grid = rows_of defaultSpec"
    by (simp add: mounted_grid_eq displayed_rows_def)
  note kept = falsy_change_keeps_widget [OF h, of mounted_grid]
  from kept have 1: "step (SpecChanged JNull) mounted_grid = mounted_grid\<lparr>spec := JNull\<rparr>"
    by blast
  from kept have "aggrid (step (SpecChanged JNull) mounted_grid) = aggrid mounted_grid"
    by blast
  then have 2: "aggrid (step (SpecChanged JNull) mounted_grid)
      = Some \<lparr>eGridDiv = Some (HTMLElement 0), gridOptions = defaultSpec, api = True\<rparr>"
    by (simp only: a)
  from kept have "displayed_rows (step (SpecChanged JNull) mounted_grid) = displayed_rows mounted_grid"
    by blast
  then have 3: "displayed_rows (step (SpecChanged JNull) mounted_grid) = rows_of defaultSpec"
    by (simp only: d)
  from falsy_change_keeps_widget [OF h', of mounted_grid]
  have 4: "step (SpecChanged (JStr [])) mounted_grid = mounted_grid\<lparr>spec := JStr []\<rparr>"
    by blast
  show ?thesis using h h' 1 2 3 4 by blast
qed

text \<open>
  C3.  When a \<^verbatim>\<open>Grid\<close> instance exists, the refresh hands the widget the
  \<^verbatim>\<open>rowData\<close> property of the current specification and nothing else: its one effect
  is \<^verbatim>\<open>setRowData\<close> on the existing instance with that property, or the rejection when
  the instance has no api or the property read throws; the instance and the options it
  was built with (its \<^verbatim>\<open>columnDefs\<close> among them) stay, and two specifications with the
  same \<^verbatim>\<open>rowData\<close> are refreshed alike.
\<close>

theorem refresh_applies_only_rowData:
  assumes "aggrid s = Some g"
  shows "aggrid (renderGrid_resume s) = Some g
    \<and> effects (renderGrid_resume s) =
        effects s @
          [if api g
           then (case rowData (spec s) of Inl e \<Rightarrow> Rejected e | Inr rows \<Rightarrow> SetRowData g rows)
           else Rejected TypeError]
    \<and> (rowData v = rowData (spec s) \<longrightarrow>
        renderGrid_resume (s\<lparr>spec := v\<rparr>) = (renderGrid_resume s)\<lparr>spec := v\<rparr>)"
  using assms by (simp add: renderGrid_resume_def split: sum.splits)

theorem refresh_applies_only_rowData_witness:
  "aggrid (mounted_grid\<lparr>spec := otherSpec\<rparr>) = Some \<lparr>eGridDiv = Some (HTMLElement 0), gridOptions = defaultSpec, api = True\<rparr>
   \<and> aggrid (renderGrid_resume (mounted_grid\<lparr>spec := otherSpec\<rparr>)) = Some \<lparr>eGridDiv = Some (HTMLElement 0), gridOptions = defaultSpec, api = True\<rparr>
   \<and> effects (renderGrid_resume (mounted_grid\<lparr>spec := otherSpec\<rparr>)) =
       effects mounted_grid @ [SetRowData \<lparr>eGridDiv = Some (HTMLElement 0), gridOptions = defaultSpec, api = True\<rparr> (JArr [JObj [(''city'', JStr ''Lyon'')], JObj [(''city'', JStr ''Nantes'')]])]
   \<and> rowData (JObj [(''rowData'', JArr [JObj [(''city'', JStr ''Lyon'')], JObj [(''city'', JStr ''Nantes'')]])])
       = rowData otherSpec
   \<and> effects (renderGrid_resume (mounted_grid
         \<lparr>spec := JObj [(''rowData'', JArr [JObj [(''city'', JStr ''Lyon'')], JObj [(''city'', JStr ''Nantes'')]])]\<rparr>))
       = effects (renderGrid_resume (mounted_grid\<lparr>spec := otherSpec\<rparr>))
   \<and> aggrid (null_built_grid\<lparr>spec := otherSpec\<rparr>)
       = Some \<lparr>eGridDiv = Some (HTMLElement 0), gridOptions = JNull, api = False\<rparr>
   \<and> effects (renderGrid_resume (null_built_grid\<lparr>spec := otherSpec\<rparr>))
       = effects null_built_grid @ [Rejected TypeError]"
proof -
  let ?rowsOnly = "JObj [(''rowData'', JArr [JObj [(''city'', JStr ''Lyon'')], JObj [(''city'', JStr ''Nantes'')]])]"
  have h: "aggrid (mounted_grid\<lparr>spec := otherSpec\<rparr>) = Some \<lparr>eGridDiv = Some (HTMLElement 0), gridOptions = defaultSpec, api = True\<rparr>"
    by (simp add: mounted_grid_eq)
  have r: "rowData ?rowsOnly = rowData otherSpec"
    by (simp add: otherSpec_def)
  note only = refresh_applies_only_rowData [OF h, of ?rowsOnly]
  from only have 1: "aggrid (renderGrid_resume (mounted_grid\<lparr>spec := otherSpec\<rparr>)) = Some \<lparr>eGridDiv = Some (HTMLElement 0), gridOptions = defaultSpec, api = True\<rparr>"
    by blast
  from only have 2: "effects (renderGrid_resume (mounted_grid\<lparr>spec := otherSpec\<rparr>)) =
       effects mounted_grid @ [SetRowData \<lparr>eGridDiv = Some (HTMLElement 0), gridOptions = defaultSpec, api = True\<rparr> (JArr [JObj [(''city'', JStr ''Lyon'')], JObj [(''city'', JStr ''Nantes'')]])]"
    by (simp add: otherSpec_def)
  from only r have "renderGrid_resume (mounted_grid\<lparr>spec := otherSpec, spec := ?rowsOnly\<rparr>)
      = (renderGrid_resume (mounted_grid\<lparr>spec := otherSpec\<rparr>))\<lparr>spec := ?rowsOnly\<rparr>"
    by simp
  then have 3: "effects (renderGrid_resume (mounted_grid\<lparr>spec := ?rowsOnly\<rparr>))
      = effects (renderGrid_resume (mounted_grid\<lparr>spec := otherSpec\<rparr>))"
    by simp
  have h': "aggrid (null_built_grid\<lparr>spec := otherSpec\<rparr>)
      = Some \<lparr>eGridDiv = Some (HTMLElement 0), gridOptions = JNull, api = False\<rparr>"
    by (simp add: null_built_grid_eq)
  from refresh_applies_only_rowData [OF h', of otherSpec]
  have 4: "effects (renderGrid_resume (null_built_grid\<lparr>spec := otherSpec\<rparr>))
      = effects null_built_grid @ [Rejected TypeError]"
    by simp
  show ?thesis using h r 1 2 3 h' 4 by blast
qed

text \<open>
  C5.  The \<^verbatim>\<open>streamsync\<close> record (name, description, category and the fields with their
  name, default, desc and type) is what the module exported, and no operation of the
  component changes any part of it: neither \<^verbatim>\<open>renderGrid\<close> before or after its
  \<^verbatim>\<open>await\<close>, nor the watch callback, nor the \<^verbatim>\<open>onMounted\<close> hook, nor any sequence of
  events.
\<close>

theorem streamsync_immutable:
  "registered (script_setup env_ssr lib v0) = streamsync
   \<and> registered (renderGrid s) = registered s
   \<and> registered (renderGrid_resume s) = registered s
   \<and> registered (watch_callback v s) = registered s
   \<and> registered (onMounted s) = registered s
   \<and> registered (step e s) = registered s
   \<and> registered (run es s) = registered s"
  by (simp add: script_setup_def watch_callback_def onMounted_def Let_def renderGrid_fields
      renderGrid_resume_fields registered_step registered_run)

theorem streamsync_immutable_witness:
  "registered (run [BindRoot (Some (HTMLElement 0)), Mounted, Resume, SpecChanged otherSpec, Resume]
      (script_setup False sample_Grid defaultSpec)) = streamsync"
  using streamsync_immutable [of False sample_Grid defaultSpec
      "script_setup False sample_Grid defaultSpec" JNull Resume
      "[BindRoot (Some (HTMLElement 0)), Mounted, Resume, SpecChanged otherSpec, Resume]"]
  by (simp only:)

text \<open>
  C7.  Field names are unique within the component: the names of the fields of the Ag Grid
  component are pairwise distinct, there being exactly one, \<^verbatim>\<open>spec\<close>.
\<close>

theorem field_names_unique:
  "distinct (map fst (meta_fields streamsync)) \<and> map fst (meta_fields streamsync) = [''spec'']"
  by (simp add: streamsync_def)

text \<open>
  C8.  The navigation of the documentation manifest is a list of ten entries, each an
  object of a \<^verbatim>\<open>group\<close> string and a \<^verbatim>\<open>pages\<close> list of page-identifier
  strings.
\<close>

theorem navigation_entries:
  "length navigation = 10 \<and> list_all is_nav_entry navigation"
  by (simp add: navigation_def mint_def)







text \<open>
  C6.  Every declared field has the type \<^verbatim>\<open>FieldType.Object\<close> and a default that is
  JSON text parsing to an object; the default of the one field, \<^verbatim>\<open>spec\<close>, parses back
  to \<^verbatim>\<open>defaultSpec\<close>, an object of a \<^verbatim>\<open>columnDefs\<close> list of three records and a
  \<^verbatim>\<open>rowData\<close> list of three records.
\<close>

theorem spec_default_valid:
  "list_all (\<lambda>(name, f). field_type f = Object \<and> valid_object_default (field_default f))
     (meta_fields streamsync)
   \<and> map (\<lambda>(name, f). (name, parse_json_value (field_default f))) (meta_fields streamsync)
       = [(''spec'', Some defaultSpec)]
   \<and> is_grid_spec defaultSpec"
proof -
  have "is_grid_spec defaultSpec"
    by (simp add: defaultSpec_def)
  moreover have "valid_object_default (JSON_stringify defaultSpec 2)"
    unfolding valid_object_default_def defaultSpec_roundtrip by (simp add: defaultSpec_def)
  ultimately show ?thesis
    by (simp add: streamsync_def defaultSpec_roundtrip)
qed

end
